theory Spec2Isabelle
  imports Complex_Main "HOL-Library.AList"
begin

section \<open>The conference peer connection channel\<close>

text \<open>
  A shallow embedding of \<^verbatim>\<open>talk/owt/sdk/conference/conferencepeerconnectionchannel.cc\<close>:
  the channel object is a record of its members, every method is a function from the
  channel to the channel, calls on the collaborators (signaling channel, peer
  connection, observers, user callbacks) are appended to a trace, and tasks posted to
  the event queue are data that \<open>run_task\<close> executes later.
\<close>

subsection \<open>Values of the subscribe options\<close>

text \<open>
  A C++ \<^verbatim>\<open>double\<close>, as far as the channel uses it: it is only compared with
  \<^verbatim>\<open>==\<close> and \<^verbatim>\<open>!=\<close>. A NaN is equal to nothing, itself included, and the
  two zeros are one value.
\<close>

datatype double = Finite rat | PosInf | NegInf | NaN

fun double_eq :: "double \<Rightarrow> double \<Rightarrow> bool" where
  "double_eq NaN b = False"
| "double_eq a NaN = False"
| "double_eq a b = (a = b)"

definition double_zero :: double where
  "double_zero = Finite 0"

text \<open>\<^verbatim>\<open>Resolution\<close>: two \<^verbatim>\<open>unsigned long\<close>, compared field by field.\<close>

record Resolution =
  width :: nat
  height :: nat

text \<open>\<^verbatim>\<open>VideoSubscriptionConstraints\<close>, the \<^verbatim>\<open>video\<close> member of the options.\<close>

record VideoSubscriptionConstraints =
  vsc_disabled :: bool
  vsc_resolution :: Resolution
  vsc_frameRate :: double
  vsc_bitrateMultiplier :: double
  vsc_keyFrameInterval :: nat
  vsc_rid :: string

record AudioSubscriptionConstraints =
  asc_disabled :: bool

record SubscribeOptions =
  so_audio :: AudioSubscriptionConstraints
  so_video :: VideoSubscriptionConstraints

text \<open>One entry of \<^verbatim>\<open>PublicationSettings::video\<close>, with the fields the channel reads.\<close>

record VideoPublicationSettings =
  vps_resolution :: Resolution
  vps_frame_rate :: double
  vps_keyframe_interval :: nat
  vps_rid :: string
  vps_track_id :: string

record PublicationSettings =
  ps_video :: "VideoPublicationSettings list"

record VideoSubscriptionCapabilities =
  cap_resolutions :: "Resolution list"
  cap_frame_rates :: "double list"
  cap_keyframe_intervals :: "nat list"
  cap_bitrate_multipliers :: "double list"

record SubscriptionCapabilities =
  sc_video :: VideoSubscriptionCapabilities

subsection \<open>SubOptionAllowed\<close>

text \<open>The first loop: return true at the first setting with the requested rid.\<close>

fun rid_loop :: "string \<Rightarrow> VideoPublicationSettings list \<Rightarrow> bool" where
  "rid_loop r [] = False"
| "rid_loop r (video_setting # rest) =
     (if vps_rid video_setting = r then True else rid_loop r rest)"

text \<open>
  The second loop runs over all settings and raises the three flags
  (resolution, frame rate, keyframe interval) it carries.
\<close>

fun settings_loop ::
  "VideoSubscriptionConstraints \<Rightarrow> VideoPublicationSettings list \<Rightarrow>
   bool \<times> bool \<times> bool \<Rightarrow> bool \<times> bool \<times> bool" where
  "settings_loop v [] flags = flags"
| "settings_loop v (video_setting # rest) (resolution_supported, frame_rate_supported,
      keyframe_interval_supported) =
     settings_loop v rest
       (if width (vsc_resolution v) \<noteq> 0 \<and> height (vsc_resolution v) \<noteq> 0 \<and>
           width (vps_resolution video_setting) = width (vsc_resolution v) \<and>
           height (vps_resolution video_setting) = height (vsc_resolution v)
        then True else resolution_supported,
        if \<not> double_eq (vsc_frameRate v) double_zero \<and>
           double_eq (vps_frame_rate video_setting) (vsc_frameRate v)
        then True else frame_rate_supported,
        if vsc_keyFrameInterval v \<noteq> 0 \<and>
           vps_keyframe_interval video_setting = vsc_keyFrameInterval v
        then True else keyframe_interval_supported)"

text \<open>\<^verbatim>\<open>std::find_if(first, last, pred) != last\<close>.\<close>

fun find_if :: "('a \<Rightarrow> bool) \<Rightarrow> 'a list \<Rightarrow> bool" where
  "find_if pred [] = False"
| "find_if pred (x # xs) = (if pred x then True else find_if pred xs)"

definition SubOptionAllowed ::
  "SubscribeOptions \<Rightarrow> PublicationSettings \<Rightarrow> SubscriptionCapabilities \<Rightarrow> bool" where
  "SubOptionAllowed subscribe_options publication_settings subscription_caps =
     (let v = so_video subscribe_options;
          caps = sc_video subscription_caps
      in if vsc_rid v \<noteq> '''' then rid_loop (vsc_rid v) (ps_video publication_settings)
         else
           (case settings_loop v (ps_video publication_settings)
                   (width (vsc_resolution v) = 0 \<and> height (vsc_resolution v) = 0,
                    double_eq (vsc_frameRate v) double_zero,
                    vsc_keyFrameInterval v = 0) of
              (res0, fr0, kfi0) \<Rightarrow>
                (let bm0 = double_eq (vsc_bitrateMultiplier v) double_zero;
                     resolution_supported =
                       (if width (vsc_resolution v) \<noteq> 0 \<and> height (vsc_resolution v) \<noteq> 0 \<and>
                           find_if (\<lambda>format. format = vsc_resolution v) (cap_resolutions caps)
                        then True else res0);
                     frame_rate_supported =
                       (if \<not> double_eq (vsc_frameRate v) double_zero \<and>
                           find_if (\<lambda>format. double_eq format (vsc_frameRate v))
                             (cap_frame_rates caps)
                        then True else fr0);
                     keyframe_interval_supported =
                       (if vsc_keyFrameInterval v \<noteq> 0 \<and>
                           find_if (\<lambda>format. format = vsc_keyFrameInterval v)
                             (cap_keyframe_intervals caps)
                        then True else kfi0);
                     bitrate_multiplier_supported =
                       (if \<not> double_eq (vsc_bitrateMultiplier v) double_zero \<and>
                           find_if (\<lambda>format. double_eq format (vsc_bitrateMultiplier v))
                             (cap_bitrate_multipliers caps)
                        then True else bm0)
                 in resolution_supported \<and> frame_rate_supported \<and>
                    keyframe_interval_supported \<and> bitrate_multiplier_supported)))"

subsection \<open>Signaling messages, streams and candidates\<close>

text \<open>
  A \<^verbatim>\<open>sio::message\<close>. An object keeps its entries in the order the code inserts them;
  the keys the channel puts into one object are distinct.
\<close>

datatype sio_message =
    null_message
  | bool_message bool
  | int_message int
  | string_message string
  | array_message "sio_message list"
  | object_message "(string \<times> sio_message) list"

datatype SignalingState =
  kStable | kHaveLocalOffer | kHaveLocalPrAnswer | kHaveRemoteOffer | kHaveRemotePrAnswer
  | kClosed

datatype TrackState = kLive | kEnded

record MediaStreamTrack =
  track_id :: string
  track_state :: TrackState

record MediaStreamInterface =
  ms_id :: string
  ms_audio_tracks :: "MediaStreamTrack list"
  ms_video_tracks :: "MediaStreamTrack list"

datatype AudioSourceInfo = kAudioMic | kAudioScreenCast | kAudioFile | kAudioUnknown

datatype VideoSourceInfo =
  kVideoCamera | kVideoScreenCast | kVideoFile | kVideoEncodedFile | kVideoRawFile
  | kVideoMixed | kVideoUnknown

record StreamSourceInfo =
  src_audio :: AudioSourceInfo
  src_video :: VideoSourceInfo

text \<open>A \<^verbatim>\<open>LocalStream\<close>; \<open>ls_media_stream\<close> is the pointer \<^verbatim>\<open>MediaStream()\<close> returns.\<close>

record LocalStream =
  ls_media_stream :: "MediaStreamInterface option"
  ls_source :: StreamSourceInfo
  ls_attributes :: "(string \<times> string) list"

record RemoteStream =
  rs_id :: string
  rs_has_audio :: bool
  rs_has_video :: bool
  rs_settings :: PublicationSettings
  rs_capabilities :: SubscriptionCapabilities
  rs_media_stream :: "MediaStreamInterface option"

text \<open>What the channel reads of a \<^verbatim>\<open>webrtc::IceCandidateInterface\<close>.\<close>

record IceCandidate =
  cand_string :: string
  cand_sdp_mline_index :: int
  cand_sdp_mid :: string

datatype MediaType = MEDIA_TYPE_AUDIO | MEDIA_TYPE_VIDEO

datatype RtpTransceiverDirection = kSendRecv | kSendOnly | kRecvOnly | kInactive

text \<open>
  Library functions the channel calls and whose code is not part of it:
  \<^verbatim>\<open>std::to_string\<close> on a double, the conversion of a double to the 64-bit integer of an
  \<^verbatim>\<open>int_message\<close>, and whether \<^verbatim>\<open>webrtc::CreateSessionDescription\<close> accepts an SDP text
  (it returns a null pointer otherwise).
\<close>

record platform =
  std_to_string :: "double \<Rightarrow> string"
  to_int64 :: "double \<Rightarrow> int"
  sdp_parses :: "string \<Rightarrow> bool"

subsection \<open>Callbacks, posted tasks and calls on the collaborators\<close>

text \<open>
  A \<^verbatim>\<open>std::function\<close> is known by an identifier; the empty function is \<open>None\<close>.
  An observer is known by its address.
\<close>

type_synonym callback = nat

type_synonym observer = nat

datatype callback_arg = NoArg | SessionIdArg string | ExceptionArg string

text \<open>
  The lambdas the channel posts to the event queue:
  \<^item> \<open>FailureTask f m\<close> captures \<open>f\<close> only and calls it with an exception of message \<open>m\<close>;
  \<^item> \<open>PublishSuccessTask\<close>, \<open>SubscribeSuccessTask\<close> and \<open>ServerFailureTask\<close> capture the weak
    self-reference and work on the channel;
  \<^item> \<open>FuncTask f\<close> calls \<open>f\<close>.
\<close>

datatype task =
    FailureTask callback string
  | PublishSuccessTask
  | SubscribeSuccessTask
  | ServerFailureTask
  | FuncTask callback

text \<open>The wrapper \<^verbatim>\<open>RunInEventQueue\<close> returns around a non-empty function.\<close>

datatype deferred = InEventQueue callback

text \<open>
  The closure handed to \<^verbatim>\<open>SendInitializationMessage\<close> as acknowledgement handler. It
  runs when the server answers; it is carried by name.
\<close>

datatype init_ack = PublishAck LocalStream | SubscribeAck

datatype stream_ref = LocalRef LocalStream | RemoteRef RemoteStream

datatype effect =
    SendSdp sio_message
  | SendInitializationMessage sio_message string string init_ack "callback option"
  | SendStreamEvent string string "deferred option" "callback option"
  | SigSendStreamControlMessage string string string "callback option" "callback option"
  | SigSendSubscriptionControlMessage string string string "callback option" "callback option"
  | PcCreateOffer
  | PcSetRemoteDescription string string
  | PcAddTransceiver MediaType RtpTransceiverDirection
  | PcClose
  | PcGetStats "callback option"
  | ObserverOnStreamError observer "stream_ref option" string
  | Invoke callback callback_arg

subsection \<open>The channel\<close>

text \<open>
  The members of the channel. \<open>peer_connection\<close> is true while the pointer
  \<^verbatim>\<open>peer_connection_\<close> is not null. \<open>event_queue\<close> lists the tasks the channel has posted,
  \<open>trace\<close> the calls it has made on its collaborators, both in order.
\<close>

record channel =
  session_id :: string
  signaling_state :: SignalingState
  ice_restart_needed :: bool
  connected :: bool
  sub_stream_added :: bool
  sub_server_ready :: bool
  ice_candidates :: "sio_message list"
  published_stream :: "LocalStream option"
  subscribed_stream :: "RemoteStream option"
  publish_success_callback :: "callback option"
  subscribe_success_callback :: "callback option"
  failure_callback :: "callback option"
  observers :: "observer list"
  peer_connection :: bool
  audio_transceiver_direction :: RtpTransceiverDirection
  video_transceiver_direction :: RtpTransceiverDirection
  event_queue :: "task list"
  trace :: "effect list"

text \<open>
  How a call can stop instead of returning: a null pointer is dereferenced, an
  \<^verbatim>\<open>RTC_CHECK\<close> fails, or an \<^verbatim>\<open>RTC_DCHECK\<close> fails (checked in debug builds). The channel
  at that point is kept.
\<close>

datatype crash = NullDeref | RtcCheck | RtcDcheck

type_synonym outcome = "(crash \<times> channel) + channel"

definition state_of :: "outcome \<Rightarrow> channel" where
  "state_of r = (case r of Inl (c, s) \<Rightarrow> s | Inr s \<Rightarrow> s)"

definition PostTask :: "task \<Rightarrow> channel \<Rightarrow> channel" where
  "PostTask t s = s\<lparr>event_queue := event_queue s @ [t]\<rparr>"

definition emit :: "effect \<Rightarrow> channel \<Rightarrow> channel" where
  "emit e s = s\<lparr>trace := trace s @ [e]\<rparr>"

text \<open>
  The idiom \<^verbatim>\<open>if (on_failure != nullptr) event_queue_->PostTask([on_failure]() {...})\<close>,
  with the message of the exception the lambda builds.
\<close>

definition PostFailure :: "callback option \<Rightarrow> string \<Rightarrow> channel \<Rightarrow> channel" where
  "PostFailure on_failure msg s =
     (case on_failure of None \<Rightarrow> s | Some f \<Rightarrow> PostTask (FailureTask f msg) s)"

text \<open>
  The channel as the constructor leaves it: no session, no stream, no callback, both
  readiness flags down, an empty candidate queue, no observer, nothing posted or sent.
  The constructor does not set the signaling state; it is given. The peer connection and
  the transceiver directions are members of the base class: the peer connection is
  taken as initialized, the directions as send and receive.
\<close>

definition new_channel :: "SignalingState \<Rightarrow> channel" where
  "new_channel st =
     \<lparr>session_id = '''', signaling_state = st, ice_restart_needed = False,
      connected = False, sub_stream_added = False, sub_server_ready = False,
      ice_candidates = [], published_stream = None, subscribed_stream = None,
      publish_success_callback = None, subscribe_success_callback = None,
      failure_callback = None, observers = [], peer_connection = True,
      audio_transceiver_direction = kSendRecv, video_transceiver_direction = kSendRecv,
      event_queue = [], trace = []\<rparr>"

subsection \<open>Small members\<close>

definition GetSessionId :: "channel \<Rightarrow> string" where
  "GetSessionId s = session_id s"

definition SetSessionId :: "string \<Rightarrow> channel \<Rightarrow> channel" where
  "SetSessionId sid s = s\<lparr>session_id := sid\<rparr>"

definition ResetCallbacks :: "channel \<Rightarrow> channel" where
  "ResetCallbacks s =
     s\<lparr>publish_success_callback := None, subscribe_success_callback := None,
       failure_callback := None\<rparr>"

definition ClosePeerConnection :: "channel \<Rightarrow> channel" where
  "ClosePeerConnection s =
     (if peer_connection s then (emit PcClose s)\<lparr>peer_connection := False\<rparr> else s)"

definition RunInEventQueue :: "callback option \<Rightarrow> deferred option" where
  "RunInEventQueue func = (case func of None \<Rightarrow> None | Some f \<Rightarrow> Some (InEventQueue f))"

text \<open>
  The wrapper of \<^verbatim>\<open>RunInEventQueue\<close>, when the signaling channel calls it: it locks the
  weak self-reference, returns if the channel is gone, and posts the function otherwise.
\<close>

definition run_deferred :: "deferred \<Rightarrow> channel option \<Rightarrow> channel option" where
  "run_deferred d that =
     (case d of InEventQueue func \<Rightarrow>
        (case that of None \<Rightarrow> None | Some c \<Rightarrow> Some (PostTask (FuncTask func) c)))"

definition AddObserver :: "observer \<Rightarrow> channel \<Rightarrow> channel" where
  "AddObserver ob s =
     (if find_if (\<lambda>o'. ob = o') (observers s) then s
      else s\<lparr>observers := observers s @ [ob]\<rparr>)"

subsection \<open>Offers and ICE restart\<close>

text \<open>
  Modelled from the spec: the accessor \<^verbatim>\<open>SignalingState()\<close> of the base class, whose
  code is not in this file. The spec keeps one signaling state, which mirrors the
  transport's; the accessor returns it.
\<close>

definition SignalingState :: "channel \<Rightarrow> SignalingState" where
  "SignalingState s = signaling_state s"

text \<open>\<^verbatim>\<open>peer_connection_->CreateOffer(observer, options)\<close>: the pointer is dereferenced.\<close>

definition CreateOffer :: "channel \<Rightarrow> outcome" where
  "CreateOffer s = (if peer_connection s then Inr (emit PcCreateOffer s) else Inl (NullDeref, s))"

definition DoIceRestart :: "channel \<Rightarrow> outcome" where
  "DoIceRestart s = (if SignalingState s = kStable then CreateOffer s else Inl (RtcDcheck, s))"

definition IceRestart :: "channel \<Rightarrow> outcome" where
  "IceRestart s =
     (if SignalingState s = kStable then DoIceRestart s
      else Inr (s\<lparr>ice_restart_needed := True\<rparr>))"

subsection \<open>Candidates\<close>

fun drain_loop :: "sio_message list \<Rightarrow> channel \<Rightarrow> channel" where
  "drain_loop [] s = s"
| "drain_loop (m # ms) s = drain_loop ms (emit (SendSdp m) s)"

definition DrainIceCandidates :: "channel \<Rightarrow> channel" where
  "DrainIceCandidates s = (drain_loop (ice_candidates s) s)\<lparr>ice_candidates := []\<rparr>"

definition OnSignalingChange :: "SignalingState \<Rightarrow> channel \<Rightarrow> outcome" where
  "OnSignalingChange new_state s =
     (let s1 = s\<lparr>signaling_state := new_state\<rparr>
      in if new_state = kStable then
           (if ice_restart_needed s1 then
              DoIceRestart (s1\<lparr>ice_restart_needed := False, ice_candidates := []\<rparr>)
            else Inr (DrainIceCandidates s1))
         else Inr s1)"

text \<open>The message \<^verbatim>\<open>OnIceCandidate\<close> builds, for the session id at that moment.\<close>

definition candidate_message :: "string \<Rightarrow> IceCandidate \<Rightarrow> sio_message" where
  "candidate_message sid candidate =
     (let candidate_string = ''a='' @ cand_string candidate;
          candidate_message =
            object_message
              [(''sdpMLineIndex'', int_message (cand_sdp_mline_index candidate)),
               (''sdpMid'', string_message (cand_sdp_mid candidate)),
               (''candidate'', string_message candidate_string)];
          sdp_message =
            object_message
              [(''type'', string_message ''candidate''), (''candidate'', candidate_message)]
      in object_message [(''id'', string_message sid), (''signaling'', sdp_message)])"

definition OnIceCandidate :: "IceCandidate \<Rightarrow> channel \<Rightarrow> channel" where
  "OnIceCandidate candidate s =
     (let message = candidate_message (session_id s) candidate
      in if signaling_state s = kStable then emit (SendSdp message) s
         else s\<lparr>ice_candidates := ice_candidates s @ [message]\<rparr>)"

text \<open>
  Transport events on a channel, to run sequences of them: a candidate is produced, the
  signaling state changes, an ICE restart is requested.
\<close>

datatype event = EvIceCandidate IceCandidate | EvSignalingChange SignalingState | EvIceRestart

fun step :: "event \<Rightarrow> channel \<Rightarrow> outcome" where
  "step (EvIceCandidate c) s = Inr (OnIceCandidate c s)"
| "step (EvSignalingChange st) s = OnSignalingChange st s"
| "step EvIceRestart s = IceRestart s"

fun run_events :: "event list \<Rightarrow> channel \<Rightarrow> outcome" where
  "run_events [] s = Inr s"
| "run_events (e # es) s = (case step e s of Inl c \<Rightarrow> Inl c | Inr s' \<Rightarrow> run_events es s')"

text \<open>The candidate messages of a trace, and the ones a sequence of events generates.\<close>

fun sent_sdp :: "effect list \<Rightarrow> sio_message list" where
  "sent_sdp [] = []"
| "sent_sdp (SendSdp m # es) = m # sent_sdp es"
| "sent_sdp (e # es) = sent_sdp es"

fun generated :: "string \<Rightarrow> event list \<Rightarrow> sio_message list" where
  "generated sid [] = []"
| "generated sid (EvIceCandidate c # es) = candidate_message sid c # generated sid es"
| "generated sid (e # es) = generated sid es"

subsection \<open>The subscribe readiness gate\<close>

definition OnAddStream :: "MediaStreamInterface option \<Rightarrow> channel \<Rightarrow> channel" where
  "OnAddStream stream s =
     (let s1 = (case subscribed_stream s of
                  None \<Rightarrow> s
                | Some rs \<Rightarrow> s\<lparr>subscribed_stream := Some (rs\<lparr>rs_media_stream := stream\<rparr>)\<rparr>)
      in if subscribe_success_callback s1 \<noteq> None then
           (let server_ready = sub_server_ready s1;
                s2 = s1\<lparr>sub_stream_added := True\<rparr>
            in if server_ready then
                 (PostTask SubscribeSuccessTask s2)
                   \<lparr>sub_server_ready := False, sub_stream_added := False\<rparr>
               else s2)
         else s1)"

text \<open>
  \<^verbatim>\<open>CreateSessionDescription("answer", sdp, nullptr)\<close>, then
  \<^verbatim>\<open>peer_connection_->SetRemoteDescription\<close>.
\<close>

definition SetRemoteDescription :: "platform \<Rightarrow> string \<Rightarrow> string \<Rightarrow> channel \<Rightarrow> outcome" where
  "SetRemoteDescription pf type sdp s =
     (if \<not> sdp_parses pf sdp then Inr s
      else if peer_connection s then Inr (emit (PcSetRemoteDescription ''answer'' sdp) s)
      else Inl (NullDeref, s))"

definition OnSignalingMessage :: "platform \<Rightarrow> sio_message option \<Rightarrow> channel \<Rightarrow> outcome" where
  "OnSignalingMessage pf message s =
     (case message of
        None \<Rightarrow> Inr s
      | Some (string_message str) \<Rightarrow>
          if str = ''success'' then
            (if publish_success_callback s \<noteq> None then Inr (PostTask PublishSuccessTask s)
             else if subscribe_success_callback s \<noteq> None then
               (let stream_added = sub_stream_added s;
                    s1 = s\<lparr>sub_server_ready := True\<rparr>
                in if stream_added then
                     Inr ((PostTask SubscribeSuccessTask s1)
                            \<lparr>sub_server_ready := False, sub_stream_added := False\<rparr>)
                   else Inr s1)
             else Inr s)
          else if str = ''failure'' then
            (if \<not> connected s \<and> failure_callback s \<noteq> None then
               Inr (PostTask ServerFailureTask s)
             else Inr s)
          else Inr s
      | Some (object_message m) \<Rightarrow>
          (case map_of m ''type'' of
             None \<Rightarrow> Inr s
           | Some (string_message type) \<Rightarrow>
               (case map_of m ''sdp'' of
                  Some (string_message sdp) \<Rightarrow>
                    if type = ''answer'' then SetRemoteDescription pf type sdp s else Inr s
                | _ \<Rightarrow> Inr s)
           | Some _ \<Rightarrow> Inr s)
      | Some _ \<Rightarrow> Inr s)"

text \<open>
  A posted task, run by the event queue. \<open>that\<close> is what \<^verbatim>\<open>weak_this.lock()\<close> gives:
  \<open>None\<close> once the channel is destroyed. The three tasks that capture the weak
  self-reference take \<^verbatim>\<open>that->callback_mutex_\<close> first and test \<^verbatim>\<open>!that\<close> afterwards.
  The result is the callbacks invoked and the channel afterwards.
\<close>

fun run_task :: "task \<Rightarrow> channel option \<Rightarrow> crash + (effect list \<times> channel option)" where
  "run_task (FailureTask on_failure msg) that = Inr ([Invoke on_failure (ExceptionArg msg)], that)"
| "run_task (FuncTask func) that = Inr ([Invoke func NoArg], that)"
| "run_task PublishSuccessTask that =
     (case that of
        None \<Rightarrow> Inl NullDeref
      | Some c \<Rightarrow>
          (case publish_success_callback c of
             None \<Rightarrow> Inr ([], Some c)
           | Some cb \<Rightarrow>
               Inr ([Invoke cb (SessionIdArg (GetSessionId c))], Some (ResetCallbacks c))))"
| "run_task SubscribeSuccessTask that =
     (case that of
        None \<Rightarrow> Inl NullDeref
      | Some c \<Rightarrow>
          (case subscribe_success_callback c of
             None \<Rightarrow> Inr ([], Some c)
           | Some cb \<Rightarrow>
               Inr ([Invoke cb (SessionIdArg (GetSessionId c))], Some (ResetCallbacks c))))"
| "run_task ServerFailureTask that =
     (case that of
        None \<Rightarrow> Inl NullDeref
      | Some c \<Rightarrow>
          (case failure_callback c of
             None \<Rightarrow> Inr ([], Some c)
           | Some cb \<Rightarrow>
               Inr ([Invoke cb
                       (ExceptionArg ''Server internal error during connection establishment.'')],
                    Some (ResetCallbacks c))))"

subsection \<open>Publish\<close>

text \<open>\<open>pointer\<close> is true when the pointer handed over is not null.\<close>

definition CheckNullPointer :: "bool \<Rightarrow> callback option \<Rightarrow> channel \<Rightarrow> bool \<times> channel" where
  "CheckNullPointer pointer on_failure s =
     (if pointer then (True, s)
      else (False, PostFailure on_failure ''Nullptr is not allowed.'' s))"

text \<open>The loops of \<^verbatim>\<open>IsMediaStreamEnded\<close>: true when some track of the list is live.\<close>

fun live_loop :: "MediaStreamTrack list \<Rightarrow> bool" where
  "live_loop [] = False"
| "live_loop (track # rest) = (if track_state track = kLive then True else live_loop rest)"

definition IsMediaStreamEnded :: "MediaStreamInterface option \<Rightarrow> crash + bool" where
  "IsMediaStreamEnded stream =
     (case stream of
        None \<Rightarrow> Inl RtcCheck
      | Some ms \<Rightarrow>
          Inr (if live_loop (ms_audio_tracks ms) then False
               else if live_loop (ms_video_tracks ms) then False
               else True))"

fun attributes_loop ::
  "(string \<times> string) list \<Rightarrow> (string \<times> sio_message) list \<Rightarrow> (string \<times> sio_message) list" where
  "attributes_loop [] m = m"
| "attributes_loop (attr # rest) m =
     attributes_loop rest (AList.update (fst attr) (string_message (snd attr)) m)"

text \<open>The options of the initialization message of a publish.\<close>

definition publish_options :: "LocalStream \<Rightarrow> nat \<Rightarrow> nat \<Rightarrow> sio_message" where
  "publish_options stream audio_track_count video_track_count =
     (let attributes_ptr = object_message (attributes_loop (ls_attributes stream) []);
          audio_options =
            object_message
              [(''type'', string_message ''audio''), (''mid'', string_message ''0''),
               (''source'',
                if src_audio (ls_source stream) = kAudioScreenCast
                then string_message ''screen-cast'' else string_message ''mic'')];
          video_options =
            object_message
              [(''type'', string_message ''video''),
               (''mid'',
                if audio_track_count = 0 then string_message ''0'' else string_message ''1''),
               (''source'',
                if src_video (ls_source stream) = kVideoScreenCast
                then string_message ''screen-cast'' else string_message ''camera'')];
          tracks_ptr =
            array_message
              ((if audio_track_count \<noteq> 0 then [audio_options] else []) @
               (if video_track_count \<noteq> 0 then [video_options] else []));
          media_ptr = object_message [(''tracks'', tracks_ptr)];
          transport_ptr = object_message [(''type'', string_message ''webrtc'')]
      in object_message
           [(''attributes'', attributes_ptr), (''media'', media_ptr),
            (''transport'', transport_ptr)])"

definition SendPublishMessage ::
  "sio_message \<Rightarrow> LocalStream option \<Rightarrow> callback option \<Rightarrow> channel \<Rightarrow> outcome" where
  "SendPublishMessage options stream on_failure s =
     (case stream of
        None \<Rightarrow> Inl (NullDeref, s)
      | Some st \<Rightarrow>
          (case ls_media_stream st of
             None \<Rightarrow> Inl (NullDeref, s)
           | Some ms \<Rightarrow>
               Inr (emit (SendInitializationMessage options (ms_id ms) '''' (PublishAck st)
                            on_failure) s)))"

text \<open>
  \<^verbatim>\<open>Publish\<close>, statement by statement. The stream is recorded first. In the condition
  \<^verbatim>\<open>!CheckNullPointer(stream.get()) || !CheckNullPointer(stream->MediaStream())\<close> the
  second check is evaluated only when the first one passes, and the branch the condition
  guards only logs. The next statement reads \<^verbatim>\<open>stream->MediaStream()\<close> and hands it to
  \<open>IsMediaStreamEnded\<close>.
\<close>

definition Publish ::
  "LocalStream option \<Rightarrow> callback option \<Rightarrow> callback option \<Rightarrow> channel \<Rightarrow> outcome" where
  "Publish stream on_success on_failure s =
     (let s1 = s\<lparr>published_stream := stream\<rparr>
      in case CheckNullPointer (stream \<noteq> None) on_failure s1 of
           (ok1, s2) \<Rightarrow>
             (case (if \<not> ok1 then Inr s2
                    else (case stream of
                            None \<Rightarrow> Inl (NullDeref, s2)
                          | Some st \<Rightarrow>
                              Inr (snd (CheckNullPointer (ls_media_stream st \<noteq> None)
                                          on_failure s2)))) of
                Inl c \<Rightarrow> Inl c
              | Inr s3 \<Rightarrow>
                  (case stream of
                     None \<Rightarrow> Inl (NullDeref, s3)
                   | Some st \<Rightarrow>
                       (case IsMediaStreamEnded (ls_media_stream st) of
                          Inl c \<Rightarrow> Inl (c, s3)
                        | Inr ended \<Rightarrow>
                            if ended then
                              Inr (PostFailure on_failure ''Cannot publish ended stream.'' s3)
                            else
                              (case ls_media_stream st of
                                 None \<Rightarrow> Inl (NullDeref, s3)
                               | Some ms \<Rightarrow>
                                   (let audio_track_count = length (ms_audio_tracks ms);
                                        video_track_count = length (ms_video_tracks ms)
                                    in if audio_track_count = 0 \<and> video_track_count = 0 then
                                         Inr (PostFailure on_failure
                                                ''Cannot publish media stream without any tracks.''
                                                s3)
                                       else
                                         SendPublishMessage
                                           (publish_options st audio_track_count
                                              video_track_count)
                                           stream on_failure
                                           (s3\<lparr>publish_success_callback := on_success,
                                               failure_callback := on_failure,
                                               audio_transceiver_direction := kSendOnly,
                                               video_transceiver_direction := kSendOnly\<rparr>)))))))"

subsection \<open>Subscribe\<close>

text \<open>
  Modelled from the spec: \<^verbatim>\<open>AddTransceiver\<close> of the base class, whose code is not in
  this file. The spec lists it as a capability of the transport; the call is recorded.
\<close>

definition AddTransceiver :: "MediaType \<Rightarrow> RtpTransceiverDirection \<Rightarrow> channel \<Rightarrow> channel" where
  "AddTransceiver media_type direction s = emit (PcAddTransceiver media_type direction) s"

text \<open>The loop that looks for the track of the requested rid and stops at the first.\<close>

fun from_loop :: "string \<Rightarrow> VideoPublicationSettings list \<Rightarrow> (string \<times> sio_message) list" where
  "from_loop r [] = []"
| "from_loop r (video_setting # rest) =
     (if vps_rid video_setting = r then [(''from'', string_message (vps_track_id video_setting))]
      else from_loop r rest)"

text \<open>
  An \<^verbatim>\<open>unsigned long\<close> handed to \<^verbatim>\<open>sio::int_message::create\<close>, which takes a signed
  64-bit integer: the value is read modulo \<open>2 ^ 64\<close> as a two's complement number.
\<close>

definition int64_of_unsigned_long :: "nat \<Rightarrow> int" where
  "int64_of_unsigned_long n =
     (let m = n mod 2 ^ 64
      in if m < 2 ^ 63 then int m else int m - 2 ^ 64)"

text \<open>The options of the initialization message of a subscribe.\<close>

definition subscribe_options_message ::
  "platform \<Rightarrow> RemoteStream \<Rightarrow> SubscribeOptions \<Rightarrow> nat \<Rightarrow> nat \<Rightarrow> sio_message" where
  "subscribe_options_message pf stream subscribe_options audio_track_count video_track_count =
     (let v = so_video subscribe_options;
          audio_options =
            object_message
              [(''type'', string_message ''audio''), (''mid'', string_message ''0''),
               (''from'', string_message (rs_id stream))];
          quality_level =
            (if \<not> double_eq (vsc_bitrateMultiplier v) double_zero
             then ''x'' @ take 3 (std_to_string pf (vsc_bitrateMultiplier v))
             else ''x1.0'');
          video_spec =
            object_message
              ((if width (vsc_resolution v) \<noteq> 0 \<and> height (vsc_resolution v) \<noteq> 0
                then [(''resolution'',
                       object_message
                         [(''width'', int_message (int64_of_unsigned_long (width (vsc_resolution v)))),
                          (''height'', int_message (int64_of_unsigned_long (height (vsc_resolution v))))])]
                else []) @
               (if quality_level \<noteq> ''x1.0'' then [(''bitrate'', string_message quality_level)]
                else []) @
               (if vsc_keyFrameInterval v \<noteq> 0
                then [(''keyFrameInterval'', int_message (int64_of_unsigned_long (vsc_keyFrameInterval v)))]
                else []) @
               (if \<not> double_eq (vsc_frameRate v) double_zero
                then [(''framerate'', int_message (to_int64 pf (vsc_frameRate v)))]
                else []));
          video_options =
            object_message
              ([(''type'', string_message ''video''),
                (''mid'',
                 if audio_track_count = 0 then string_message ''0'' else string_message ''1'')] @
               (if vsc_rid v \<noteq> ''''
                then from_loop (vsc_rid v) (ps_video (rs_settings stream))
                else [(''from'', string_message (rs_id stream))]) @
               [(''parameters'', video_spec)] @
               (if vsc_rid v \<noteq> '''' then [(''simulcastRid'', string_message (vsc_rid v))]
                else []));
          tracks_options =
            array_message
              ((if audio_track_count > 0 then [audio_options] else []) @
               (if video_track_count > 0 then [video_options] else []));
          media_options = object_message [(''tracks'', tracks_options)];
          transport_ptr = object_message [(''type'', string_message ''webrtc'')]
      in object_message [(''media'', media_options), (''transport'', transport_ptr)])"

text \<open>
  \<^verbatim>\<open>Subscribe\<close>. The stream is dereferenced for
  \<^verbatim>\<open>SubOptionAllowed(subscribe_options, stream->Settings(), stream->Capabilities())\<close>
  before its null check. The branch for a subscribe in flight posts the failure and
  has no \<^verbatim>\<open>return\<close>.
\<close>

definition Subscribe ::
  "platform \<Rightarrow> RemoteStream option \<Rightarrow> SubscribeOptions \<Rightarrow> callback option \<Rightarrow>
   callback option \<Rightarrow> channel \<Rightarrow> outcome" where
  "Subscribe pf stream subscribe_options on_success on_failure s =
     (case stream of
        None \<Rightarrow> Inl (NullDeref, s)
      | Some st \<Rightarrow>
          if \<not> SubOptionAllowed subscribe_options (rs_settings st) (rs_capabilities st) then
            Inr (PostFailure on_failure ''Unsupported subscribe option.'' s)
          else
            (case CheckNullPointer (stream \<noteq> None) on_failure s of
               (ok, s1) \<Rightarrow>
                 if \<not> ok then Inr s1
                 else
                   (let s2 = (if subscribe_success_callback s1 \<noteq> None
                              then PostFailure on_failure ''Subscribing this stream.'' s1
                              else s1);
                        s3 = s2\<lparr>subscribe_success_callback := on_success,
                                failure_callback := on_failure\<rparr>;
                        has_audio = (rs_has_audio st \<and>
                                     \<not> asc_disabled (so_audio subscribe_options));
                        s4 = (if has_audio then AddTransceiver MEDIA_TYPE_AUDIO kRecvOnly s3
                              else s3);
                        audio_track_count = (if has_audio then 1 else 0);
                        has_video = (rs_has_video st \<and>
                                     \<not> vsc_disabled (so_video subscribe_options));
                        s5 = (if has_video then AddTransceiver MEDIA_TYPE_VIDEO kRecvOnly s4
                              else s4);
                        video_track_count = (if has_video then 1 else 0);
                        sio_options =
                          subscribe_options_message pf st subscribe_options
                            audio_track_count video_track_count;
                        s6 = emit (SendInitializationMessage sio_options '''' (rs_id st)
                                     SubscribeAck on_failure) s5
                    in Inr (s6\<lparr>subscribed_stream := stream\<rparr>))))"

subsection \<open>Unpublish, unsubscribe, control and statistics\<close>

definition Unpublish ::
  "string \<Rightarrow> callback option \<Rightarrow> callback option \<Rightarrow> channel \<Rightarrow> channel" where
  "Unpublish sid on_success on_failure s =
     (if sid \<noteq> GetSessionId s then
        PostFailure on_failure ''Invalid stream to be unpublished.'' s
      else
        ClosePeerConnection
          (emit (SendStreamEvent ''unpublish'' sid (RunInEventQueue on_success) on_failure)
             (s\<lparr>connected := False\<rparr>)))"

definition Unsubscribe ::
  "string \<Rightarrow> callback option \<Rightarrow> callback option \<Rightarrow> channel \<Rightarrow> channel" where
  "Unsubscribe sid on_success on_failure s =
     (if sid \<noteq> GetSessionId s then
        PostFailure on_failure ''Invalid stream to be unsubscribed.'' s
      else if subscribe_success_callback s \<noteq> None then
        PostFailure on_failure ''Cannot unsubscribe a stream during subscribing.'' s
      else
        ClosePeerConnection
          (emit (SendStreamEvent ''unsubscribe'' sid (RunInEventQueue on_success) on_failure)
             (s\<lparr>connected := False\<rparr>)))"

definition SendStreamControlMessage ::
  "string \<Rightarrow> string \<Rightarrow> string \<Rightarrow> callback option \<Rightarrow> callback option \<Rightarrow> channel \<Rightarrow> outcome" where
  "SendStreamControlMessage in_action out_action operation on_success on_failure s =
     (if published_stream s \<noteq> None then
        Inr (emit (SigSendStreamControlMessage (session_id s) out_action operation
                     on_success on_failure) s)
      else if subscribed_stream s \<noteq> None then
        Inr (emit (SigSendSubscriptionControlMessage (session_id s) in_action operation
                     on_success on_failure) s)
      else Inl (RtcDcheck, s))"

text \<open>
  \<^verbatim>\<open>GetConnectionStats\<close>; its two overloads differ in the type of the report only.
\<close>

definition GetConnectionStats :: "callback option \<Rightarrow> callback option \<Rightarrow> channel \<Rightarrow> outcome" where
  "GetConnectionStats on_success on_failure s =
     (if published_stream s = None \<and> subscribed_stream s = None then
        Inr (PostFailure on_failure ''No stream associated with the session'' s)
      else if subscribed_stream s \<noteq> None \<or> published_stream s \<noteq> None then
        (if peer_connection s then Inr (emit (PcGetStats on_success) s)
         else Inl (NullDeref, s))
      else Inr s)"

subsection \<open>Stream errors\<close>

text \<open>
  The loop over the observers of \<^verbatim>\<open>OnStreamError\<close>; \<open>error_stream\<close> is the value of the
  local variable when the loop runs.
\<close>

fun notify_loop :: "observer list \<Rightarrow> stream_ref option \<Rightarrow> string \<Rightarrow> channel \<Rightarrow> channel" where
  "notify_loop [] error_stream msg s = s"
| "notify_loop (ob # rest) error_stream msg s =
     notify_loop rest error_stream msg (emit (ObserverOnStreamError ob error_stream msg) s)"

definition OnStreamError :: "string \<Rightarrow> channel \<Rightarrow> outcome" where
  "OnStreamError error_message s =
     (let error_stream0 = None;
          s1 = notify_loop (observers s) error_stream0 error_message s
      in case (case published_stream s1 of
                 None \<Rightarrow> (s1, error_stream0)
               | Some ls \<Rightarrow> (Unpublish (GetSessionId s1) None None s1, Some (LocalRef ls))) of
           (s2, error_stream1) \<Rightarrow>
             (case (case subscribed_stream s2 of
                      None \<Rightarrow> (s2, error_stream1)
                    | Some rs \<Rightarrow>
                        (Unsubscribe (GetSessionId s2) None None s2, Some (RemoteRef rs))) of
                (s3, error_stream2) \<Rightarrow>
                  if error_stream2 = None then Inl (RtcDcheck, s3) else Inr s3))"

subsection \<open>The option check in the words of the specification\<close>

text \<open>
  The specification calls an option supported when it is unspecified (zero) in the
  request, or explicitly requested (not zero) and matched by a value of the stream's
  publication settings or of its capabilities. These definitions follow that sentence;
  they are compared with \<open>SubOptionAllowed\<close> below. A publication setting carries no
  bitrate multiplier, so for it only the capabilities can match.
\<close>

definition spec_resolution_supported ::
  "SubscribeOptions \<Rightarrow> PublicationSettings \<Rightarrow> SubscriptionCapabilities \<Rightarrow> bool" where
  "spec_resolution_supported opts settings caps =
     (let r = vsc_resolution (so_video opts);
          unspecified = (width r = 0 \<and> height r = 0)
      in unspecified \<or>
         (\<not> unspecified \<and>
          ((\<exists>vs \<in> set (ps_video settings). vps_resolution vs = r) \<or>
           r \<in> set (cap_resolutions (sc_video caps)))))"

definition spec_frame_rate_supported ::
  "SubscribeOptions \<Rightarrow> PublicationSettings \<Rightarrow> SubscriptionCapabilities \<Rightarrow> bool" where
  "spec_frame_rate_supported opts settings caps =
     (let f = vsc_frameRate (so_video opts);
          unspecified = double_eq f double_zero
      in unspecified \<or>
         (\<not> unspecified \<and>
          ((\<exists>vs \<in> set (ps_video settings). double_eq (vps_frame_rate vs) f) \<or>
           (\<exists>c \<in> set (cap_frame_rates (sc_video caps)). double_eq c f))))"

definition spec_keyframe_interval_supported ::
  "SubscribeOptions \<Rightarrow> PublicationSettings \<Rightarrow> SubscriptionCapabilities \<Rightarrow> bool" where
  "spec_keyframe_interval_supported opts settings caps =
     (let k = vsc_keyFrameInterval (so_video opts);
          unspecified = (k = 0)
      in unspecified \<or>
         (\<not> unspecified \<and>
          ((\<exists>vs \<in> set (ps_video settings). vps_keyframe_interval vs = k) \<or>
           k \<in> set (cap_keyframe_intervals (sc_video caps)))))"

definition spec_bitrate_multiplier_supported ::
  "SubscribeOptions \<Rightarrow> SubscriptionCapabilities \<Rightarrow> bool" where
  "spec_bitrate_multiplier_supported opts caps =
     (let b = vsc_bitrateMultiplier (so_video opts);
          unspecified = double_eq b double_zero
      in unspecified \<or>
         (\<not> unspecified \<and>
          (\<exists>c \<in> set (cap_bitrate_multipliers (sc_video caps)). double_eq c b)))"

definition spec_SubOptionAllowed ::
  "SubscribeOptions \<Rightarrow> PublicationSettings \<Rightarrow> SubscriptionCapabilities \<Rightarrow> bool" where
  "spec_SubOptionAllowed opts settings caps =
     (spec_resolution_supported opts settings caps \<and>
      spec_frame_rate_supported opts settings caps \<and>
      spec_keyframe_interval_supported opts settings caps \<and>
      spec_bitrate_multiplier_supported opts caps)"

subsection \<open>Sample values\<close>

definition sample_platform :: platform where
  "sample_platform =
     \<lparr>std_to_string = (\<lambda>d. ''1.500000''), to_int64 = (\<lambda>d. 30), sdp_parses = (\<lambda>sdp. True)\<rparr>"

definition default_options :: SubscribeOptions where
  "default_options =
     \<lparr>so_audio = \<lparr>asc_disabled = False\<rparr>,
      so_video =
        \<lparr>vsc_disabled = False, vsc_resolution = \<lparr>width = 0, height = 0\<rparr>,
         vsc_frameRate = Finite 0, vsc_bitrateMultiplier = Finite 0,
         vsc_keyFrameInterval = 0, vsc_rid = ''''\<rparr>\<rparr>"

definition sample_setting :: VideoPublicationSettings where
  "sample_setting =
     \<lparr>vps_resolution = \<lparr>width = 1280, height = 720\<rparr>, vps_frame_rate = Finite 30,
      vps_keyframe_interval = 100, vps_rid = ''q'', vps_track_id = ''track-q''\<rparr>"

definition sample_settings :: PublicationSettings where
  "sample_settings = \<lparr>ps_video = [sample_setting]\<rparr>"

definition sample_caps :: SubscriptionCapabilities where
  "sample_caps =
     \<lparr>sc_video =
        \<lparr>cap_resolutions = [\<lparr>width = 640, height = 360\<rparr>], cap_frame_rates = [Finite 15],
         cap_keyframe_intervals = [30], cap_bitrate_multipliers = [Finite (3 / 2)]\<rparr>\<rparr>"

text \<open>A request for the layer \<open>q\<close>, with other options no value of the stream matches.\<close>

definition rid_options :: SubscribeOptions where
  "rid_options =
     \<lparr>so_audio = \<lparr>asc_disabled = False\<rparr>,
      so_video =
        \<lparr>vsc_disabled = False, vsc_resolution = \<lparr>width = 1, height = 1\<rparr>,
         vsc_frameRate = Finite 7, vsc_bitrateMultiplier = Finite 9,
         vsc_keyFrameInterval = 5, vsc_rid = ''q''\<rparr>\<rparr>"

text \<open>A request that names every option, each matched by the settings or the capabilities.\<close>

definition matched_options :: SubscribeOptions where
  "matched_options =
     \<lparr>so_audio = \<lparr>asc_disabled = False\<rparr>,
      so_video =
        \<lparr>vsc_disabled = False, vsc_resolution = \<lparr>width = 640, height = 360\<rparr>,
         vsc_frameRate = Finite 30, vsc_bitrateMultiplier = Finite (3 / 2),
         vsc_keyFrameInterval = 30, vsc_rid = ''''\<rparr>\<rparr>"

text \<open>
  A request whose resolution has a width of zero and a height of 720, and a stream that
  publishes and can deliver exactly that resolution.
\<close>

definition half_options :: SubscribeOptions where
  "half_options =
     \<lparr>so_audio = \<lparr>asc_disabled = False\<rparr>,
      so_video =
        \<lparr>vsc_disabled = False, vsc_resolution = \<lparr>width = 0, height = 720\<rparr>,
         vsc_frameRate = Finite 0, vsc_bitrateMultiplier = Finite 0,
         vsc_keyFrameInterval = 0, vsc_rid = ''''\<rparr>\<rparr>"

definition half_settings :: PublicationSettings where
  "half_settings =
     \<lparr>ps_video =
        [\<lparr>vps_resolution = \<lparr>width = 0, height = 720\<rparr>, vps_frame_rate = Finite 30,
          vps_keyframe_interval = 100, vps_rid = '''', vps_track_id = ''track''\<rparr>]\<rparr>"

definition half_caps :: SubscriptionCapabilities where
  "half_caps =
     \<lparr>sc_video =
        \<lparr>cap_resolutions = [\<lparr>width = 0, height = 720\<rparr>], cap_frame_rates = [],
         cap_keyframe_intervals = [], cap_bitrate_multipliers = []\<rparr>\<rparr>"

definition sample_remote_stream :: RemoteStream where
  "sample_remote_stream =
     \<lparr>rs_id = ''remote-1'', rs_has_audio = True, rs_has_video = True,
      rs_settings = sample_settings, rs_capabilities = sample_caps,
      rs_media_stream = None\<rparr>"

definition live_media_stream :: MediaStreamInterface where
  "live_media_stream =
     \<lparr>ms_id = ''local-1'',
      ms_audio_tracks = [\<lparr>track_id = ''a0'', track_state = kLive\<rparr>],
      ms_video_tracks = [\<lparr>track_id = ''v0'', track_state = kLive\<rparr>]\<rparr>"

definition sample_source :: StreamSourceInfo where
  "sample_source = \<lparr>src_audio = kAudioMic, src_video = kVideoCamera\<rparr>"

definition live_local_stream :: LocalStream where
  "live_local_stream =
     \<lparr>ls_media_stream = Some live_media_stream, ls_source = sample_source,
      ls_attributes = []\<rparr>"

text \<open>A stream without media handle.\<close>

definition handleless_local_stream :: LocalStream where
  "handleless_local_stream =
     \<lparr>ls_media_stream = None, ls_source = sample_source, ls_attributes = []\<rparr>"

definition cand_A :: IceCandidate where
  "cand_A = \<lparr>cand_string = ''candidate:A'', cand_sdp_mline_index = 0, cand_sdp_mid = ''0''\<rparr>"

definition cand_B :: IceCandidate where
  "cand_B = \<lparr>cand_string = ''candidate:B'', cand_sdp_mline_index = 1, cand_sdp_mid = ''1''\<rparr>"

definition cand_C :: IceCandidate where
  "cand_C = \<lparr>cand_string = ''candidate:C'', cand_sdp_mline_index = 0, cand_sdp_mid = ''0''\<rparr>"

text \<open>A channel on which a subscribe is in flight: its callbacks are registered.\<close>

definition subscribing_channel :: channel where
  "subscribing_channel =
     (SetSessionId ''s-1'' (new_channel kHaveLocalOffer))
       \<lparr>subscribe_success_callback := Some 1, failure_callback := Some 2,
        subscribed_stream := Some sample_remote_stream\<rparr>"

text \<open>
  A channel outside the stable state with the candidates A and B queued, the same
  channel with an ICE restart requested, and a run of candidates and state changes.
\<close>

definition queued_channel :: channel where
  "queued_channel =
     (new_channel kHaveLocalOffer)
       \<lparr>ice_candidates := [candidate_message '''' cand_A, candidate_message '''' cand_B]\<rparr>"

definition restart_pending_channel :: channel where
  "restart_pending_channel = queued_channel\<lparr>ice_restart_needed := True\<rparr>"

definition sample_events :: "event list" where
  "sample_events =
     [EvIceCandidate cand_A, EvSignalingChange kHaveLocalOffer, EvIceCandidate cand_B,
      EvSignalingChange kStable, EvIceCandidate cand_C]"

text \<open>A channel that publishes the live stream to a session, with two observers.\<close>

definition publishing_channel :: channel where
  "publishing_channel =
     AddObserver 8
       (AddObserver 7
          ((SetSessionId ''p-1'' (new_channel kStable))
             \<lparr>published_stream := Some live_local_stream\<rparr>))"

subsection \<open>The candidate buffer in the words of the specification\<close>

text \<open>
  The state the last signaling-state change of a sequence of events leaves, or the given
  one if the sequence has none.
\<close>

fun final_signaling_state :: "SignalingState \<Rightarrow> event list \<Rightarrow> SignalingState" where
  "final_signaling_state st [] = st"
| "final_signaling_state st (EvSignalingChange st' # es) = final_signaling_state st' es"
| "final_signaling_state st (e # es) = final_signaling_state st es"

text \<open>
  The candidate buffer of the specification, on the signaling state, the candidate
  messages transmitted and the queue: a generated candidate is sent at once in the stable
  state and appended to the queue otherwise; a transition into the stable state sends
  every queued candidate in order and clears the queue; any other transition only
  changes the state. The request for an ICE restart itself sends and queues nothing.
  It is compared with the channel below.
\<close>

fun spec_buffer_step ::
  "string \<Rightarrow> event \<Rightarrow> SignalingState \<times> sio_message list \<times> sio_message list \<Rightarrow>
   SignalingState \<times> sio_message list \<times> sio_message list" where
  "spec_buffer_step sid (EvIceCandidate c) (st, sent, queue) =
     (if st = kStable then (st, sent @ [candidate_message sid c], queue)
      else (st, sent, queue @ [candidate_message sid c]))"
| "spec_buffer_step sid (EvSignalingChange st') (st, sent, queue) =
     (if st' = kStable then (st', sent @ queue, []) else (st', sent, queue))"
| "spec_buffer_step sid EvIceRestart (st, sent, queue) = (st, sent, queue)"

fun spec_candidate_buffer ::
  "string \<Rightarrow> event list \<Rightarrow> SignalingState \<times> sio_message list \<times> sio_message list \<Rightarrow>
   SignalingState \<times> sio_message list \<times> sio_message list" where
  "spec_candidate_buffer sid [] x = x"
| "spec_candidate_buffer sid (e # es) x = spec_candidate_buffer sid es (spec_buffer_step sid e x)"

text \<open>A candidate produced while the channel has a local offer out, then the stable state.\<close>

definition late_stable_events :: "event list" where
  "late_stable_events = [EvIceCandidate cand_A, EvSignalingChange kStable]"

section \<open>Properties\<close>

subsection \<open>The option check\<close>

lemma rid_loop_iff: "rid_loop r vs = (\<exists>v \<in> set vs. vps_rid v = r)"
  by (induction vs) auto

lemma find_if_iff: "find_if P xs = (\<exists>x \<in> set xs. P x)"
  by (induction xs) auto

lemma Resolution_eq_iff:
  "(width r = width r' \<and> height r = height r') = (r = (r' :: Resolution))"
  by auto

lemma settings_loop_eq:
  "settings_loop v vs (a, b, c) =
     (a \<or> (width (vsc_resolution v) \<noteq> 0 \<and> height (vsc_resolution v) \<noteq> 0 \<and>
           (\<exists>x \<in> set vs. vps_resolution x = vsc_resolution v)),
      b \<or> (\<not> double_eq (vsc_frameRate v) double_zero \<and>
           (\<exists>x \<in> set vs. double_eq (vps_frame_rate x) (vsc_frameRate v))),
      c \<or> (vsc_keyFrameInterval v \<noteq> 0 \<and>
           (\<exists>x \<in> set vs. vps_keyframe_interval x = vsc_keyFrameInterval v)))"
  by (induction vs arbitrary: a b c) (auto simp add: Resolution_eq_iff)

text \<open>
  C7. When the request names a simulcast rid, \<open>SubOptionAllowed\<close> is true exactly when
  some video entry of the publication settings has that rid, whatever the other options
  of the request, the other fields of the settings and the capabilities are. When the
  request has an empty rid, resolution 0 x 0, frame rate 0, keyframe interval 0 and
  bitrate multiplier 0, \<open>SubOptionAllowed\<close> is true for every settings and capabilities.
\<close>

theorem SubOptionAllowed_rid_sole_criterion:
  "(vsc_rid (so_video opts) \<noteq> '''' \<longrightarrow>
      SubOptionAllowed opts settings caps =
        (\<exists>vs \<in> set (ps_video settings). vps_rid vs = vsc_rid (so_video opts))) \<and>
   (vsc_rid (so_video opts) = '''' \<and>
    width (vsc_resolution (so_video opts)) = 0 \<and>
    height (vsc_resolution (so_video opts)) = 0 \<and>
    vsc_frameRate (so_video opts) = Finite 0 \<and>
    vsc_keyFrameInterval (so_video opts) = 0 \<and>
    vsc_bitrateMultiplier (so_video opts) = Finite 0 \<longrightarrow>
      SubOptionAllowed opts settings caps)"
  by (simp add: SubOptionAllowed_def Let_def rid_loop_iff settings_loop_eq double_zero_def)

theorem SubOptionAllowed_rid_sole_criterion_witness:
  "SubOptionAllowed rid_options sample_settings sample_caps \<and>
   \<not> SubOptionAllowed rid_options half_settings sample_caps \<and>
   SubOptionAllowed default_options sample_settings sample_caps \<and>
   SubOptionAllowed default_options half_settings half_caps"
  using SubOptionAllowed_rid_sole_criterion [of rid_options sample_settings sample_caps]
    SubOptionAllowed_rid_sole_criterion [of rid_options half_settings sample_caps]
    SubOptionAllowed_rid_sole_criterion [of default_options sample_settings sample_caps]
    SubOptionAllowed_rid_sole_criterion [of default_options half_settings half_caps]
  by (simp add: rid_options_def default_options_def sample_settings_def sample_setting_def
      half_settings_def)

text \<open>
  Without a rid, the four flags of \<open>SubOptionAllowed\<close> written out: what the loop over the
  settings and the four searches in the capabilities leave.
\<close>

lemma SubOptionAllowed_no_rid:
  assumes "vsc_rid (so_video opts) = []"
  shows "SubOptionAllowed opts settings caps =
     (((width (vsc_resolution (so_video opts)) = 0 \<and>
        height (vsc_resolution (so_video opts)) = 0) \<or>
       (width (vsc_resolution (so_video opts)) \<noteq> 0 \<and>
        height (vsc_resolution (so_video opts)) \<noteq> 0 \<and>
        ((\<exists>x \<in> set (ps_video settings). vps_resolution x = vsc_resolution (so_video opts)) \<or>
         vsc_resolution (so_video opts) \<in> set (cap_resolutions (sc_video caps))))) \<and>
      (double_eq (vsc_frameRate (so_video opts)) double_zero \<or>
       (\<exists>x \<in> set (ps_video settings).
          double_eq (vps_frame_rate x) (vsc_frameRate (so_video opts))) \<or>
       (\<exists>c \<in> set (cap_frame_rates (sc_video caps)).
          double_eq c (vsc_frameRate (so_video opts)))) \<and>
      (vsc_keyFrameInterval (so_video opts) = 0 \<or>
       (\<exists>x \<in> set (ps_video settings).
          vps_keyframe_interval x = vsc_keyFrameInterval (so_video opts)) \<or>
       vsc_keyFrameInterval (so_video opts) \<in> set (cap_keyframe_intervals (sc_video caps))) \<and>
      (double_eq (vsc_bitrateMultiplier (so_video opts)) double_zero \<or>
       (\<exists>c \<in> set (cap_bitrate_multipliers (sc_video caps)).
          double_eq c (vsc_bitrateMultiplier (so_video opts)))))"
proof -
  have if_or: "\<And>P Q. (if P then True else Q) = (P \<or> Q)" by simp
  show ?thesis
    apply (simp only: SubOptionAllowed_def Let_def assms settings_loop_eq find_if_iff
        prod.case if_or simp_thms if_False)
    apply (intro arg_cong2 [of _ _ _ _ "(\<and>)"])
       apply blast
      apply blast
     apply auto[1]
    apply blast
    done
qed

text \<open>
  C8, as the specification words it, fails: the request \<open>half_options\<close> asks for the
  resolution 0 x 720 and nothing else, the stream publishes that resolution and lists it
  among its capabilities, so every option is unspecified or requested and matched; yet
  \<open>SubOptionAllowed\<close> is false, because the code takes a resolution as requested only
  when width and height are both different from zero.
\<close>

theorem SubOptionAllowed_half_resolution_counterexample:
  "spec_SubOptionAllowed half_options half_settings half_caps \<and>
   \<not> SubOptionAllowed half_options half_settings half_caps"
  by (simp add: spec_SubOptionAllowed_def spec_resolution_supported_def
      spec_frame_rate_supported_def spec_keyframe_interval_supported_def
      spec_bitrate_multiplier_supported_def SubOptionAllowed_def half_options_def
      half_settings_def half_caps_def double_zero_def Let_def)

text \<open>
  C8, amended. With no rid requested, \<open>SubOptionAllowed\<close> is true exactly when the
  width and the height of the requested resolution are both zero or both different from
  zero, and each of the four options is supported in the sense of the specification:
  zero in the request, or not zero and equal to the value of some publication setting
  or of some capability (for the bitrate multiplier: of some capability). A resolution
  with exactly one dimension of zero is never allowed.
\<close>

theorem SubOptionAllowed_without_rid:
  assumes "vsc_rid (so_video opts) = ''''"
  shows "SubOptionAllowed opts settings caps =
     ((width (vsc_resolution (so_video opts)) = 0 \<longleftrightarrow>
       height (vsc_resolution (so_video opts)) = 0) \<and>
      spec_SubOptionAllowed opts settings caps)"
  unfolding SubOptionAllowed_no_rid [OF assms] spec_SubOptionAllowed_def
    spec_resolution_supported_def spec_frame_rate_supported_def
    spec_keyframe_interval_supported_def spec_bitrate_multiplier_supported_def Let_def
  by blast

theorem SubOptionAllowed_without_rid_witness:
  "vsc_rid (so_video matched_options) = '''' \<and>
   SubOptionAllowed matched_options sample_settings sample_caps \<and>
   vsc_rid (so_video half_options) = '''' \<and>
   \<not> SubOptionAllowed half_options half_settings half_caps"
  using SubOptionAllowed_without_rid [of matched_options sample_settings sample_caps]
    SubOptionAllowed_without_rid [of half_options half_settings half_caps]
  by (simp add: spec_SubOptionAllowed_def spec_resolution_supported_def
      spec_frame_rate_supported_def spec_keyframe_interval_supported_def
      spec_bitrate_multiplier_supported_def matched_options_def half_options_def
      sample_settings_def sample_setting_def sample_caps_def double_zero_def Let_def)

subsection \<open>Candidates and signaling state\<close>

lemma drain_loop_eq: "drain_loop ms s = s\<lparr>trace := trace s @ map SendSdp ms\<rparr>"
  by (induction ms arbitrary: s) (simp_all add: emit_def)

lemma sent_sdp_append: "sent_sdp (xs @ ys) = sent_sdp xs @ sent_sdp ys"
  by (induction xs rule: sent_sdp.induct) simp_all

lemma sent_sdp_map: "sent_sdp (map SendSdp ms) = ms"
  by (induction ms) simp_all

lemma DrainIceCandidates_eq:
  "DrainIceCandidates s = s\<lparr>ice_candidates := [], trace := trace s @ map SendSdp (ice_candidates s)\<rparr>"
  by (simp add: DrainIceCandidates_def drain_loop_eq)

lemma OnSignalingChange_stable_eq:
  "OnSignalingChange kStable s =
     (if ice_restart_needed s then
        (if peer_connection s then
           Inr (s\<lparr>signaling_state := kStable, ice_restart_needed := False,
                  ice_candidates := [], trace := trace s @ [PcCreateOffer]\<rparr>)
         else Inl (NullDeref, s\<lparr>signaling_state := kStable, ice_restart_needed := False,
                                 ice_candidates := []\<rparr>))
      else Inr (s\<lparr>signaling_state := kStable, ice_candidates := [],
                   trace := trace s @ map SendSdp (ice_candidates s)\<rparr>))"
  by (simp add: OnSignalingChange_def DoIceRestart_def SignalingState_def CreateOffer_def
      DrainIceCandidates_eq emit_def)

lemma OnSignalingChange_other_eq:
  "st \<noteq> kStable \<Longrightarrow> OnSignalingChange st s = Inr (s\<lparr>signaling_state := st\<rparr>)"
  by (simp add: OnSignalingChange_def)

lemma step_order:
  assumes "e \<noteq> EvIceRestart" "\<not> ice_restart_needed s"
    "signaling_state s = kStable \<longrightarrow> ice_candidates s = []"
  shows "\<exists>s'. step e s = Inr s' \<and> \<not> ice_restart_needed s' \<and>
           (signaling_state s' = kStable \<longrightarrow> ice_candidates s' = []) \<and>
           session_id s' = session_id s \<and>
           sent_sdp (trace s') @ ice_candidates s' =
             sent_sdp (trace s) @ ice_candidates s @ generated (session_id s) [e]"
proof (cases e)
  case (EvIceCandidate c)
  then show ?thesis using assms
    by (simp add: OnIceCandidate_def emit_def sent_sdp_append Let_def)
next
  case (EvSignalingChange st)
  show ?thesis
  proof (cases "st = kStable")
    case True
    then show ?thesis using assms EvSignalingChange
      by (simp add: OnSignalingChange_stable_eq sent_sdp_append sent_sdp_map)
  next
    case False
    then show ?thesis using assms EvSignalingChange
      by (simp add: OnSignalingChange_other_eq)
  qed
next
  case EvIceRestart
  then show ?thesis using assms by simp
qed

lemma generated_Cons: "generated sid (e # es) = generated sid [e] @ generated sid es"
  by (cases e) simp_all

lemma run_events_order:
  assumes "EvIceRestart \<notin> set evs" "\<not> ice_restart_needed s"
    "signaling_state s = kStable \<longrightarrow> ice_candidates s = []"
  shows "\<exists>s'. run_events evs s = Inr s' \<and> \<not> ice_restart_needed s' \<and>
           (signaling_state s' = kStable \<longrightarrow> ice_candidates s' = []) \<and>
           session_id s' = session_id s \<and>
           sent_sdp (trace s') @ ice_candidates s' =
             sent_sdp (trace s) @ ice_candidates s @ generated (session_id s) evs"
  using assms
proof (induction evs arbitrary: s)
  case Nil
  then show ?case by simp
next
  case (Cons e es)
  from Cons.prems have ne: "e \<noteq> EvIceRestart" and rest: "EvIceRestart \<notin> set es" by auto
  from step_order [OF ne Cons.prems(2) Cons.prems(3)]
  obtain s1 where s1: "step e s = Inr s1" "\<not> ice_restart_needed s1"
      "signaling_state s1 = kStable \<longrightarrow> ice_candidates s1 = []"
      "session_id s1 = session_id s"
      "sent_sdp (trace s1) @ ice_candidates s1 =
         sent_sdp (trace s) @ ice_candidates s @ generated (session_id s) [e]"
    by blast
  from Cons.IH [OF rest s1(2) s1(3)]
  obtain s' where s': "run_events es s1 = Inr s'" "\<not> ice_restart_needed s'"
      "signaling_state s' = kStable \<longrightarrow> ice_candidates s' = []"
      "session_id s' = session_id s1"
      "sent_sdp (trace s') @ ice_candidates s' =
         sent_sdp (trace s1) @ ice_candidates s1 @ generated (session_id s1) es"
    by blast
  have "sent_sdp (trace s') @ ice_candidates s' =
          sent_sdp (trace s) @ ice_candidates s @ generated (session_id s) (e # es)"
    using s'(5) s1(4) s1(5) generated_Cons [of "session_id s" e es]
    by (metis append.assoc)
  with s1 s' show ?case by simp
qed

text \<open>
  A stable channel has an empty queue: the constructor leaves the queue empty, and every
  event that returns keeps the property, a requested ICE restart included.
\<close>

lemma step_keeps_queue_empty_when_stable:
  assumes "signaling_state s = kStable \<longrightarrow> ice_candidates s = []" "step e s = Inr s'"
  shows "signaling_state s' = kStable \<longrightarrow> ice_candidates s' = []"
proof (cases e)
  case (EvIceCandidate c)
  then show ?thesis using assms
    by (cases "signaling_state s = kStable") (auto simp add: OnIceCandidate_def emit_def Let_def)
next
  case (EvSignalingChange st)
  then show ?thesis using assms
    by (cases "st = kStable")
      (auto simp add: OnSignalingChange_stable_eq OnSignalingChange_other_eq split: if_splits)
next
  case EvIceRestart
  then show ?thesis using assms
    by (auto simp add: IceRestart_def DoIceRestart_def CreateOffer_def SignalingState_def
        emit_def split: if_splits)
qed

lemma run_events_keeps_queue_empty_when_stable:
  assumes "signaling_state s = kStable \<longrightarrow> ice_candidates s = []" "run_events evs s = Inr s'"
  shows "signaling_state s' = kStable \<longrightarrow> ice_candidates s' = []"
  using assms
proof (induction evs arbitrary: s)
  case Nil
  then show ?case by simp
next
  case (Cons e es)
  from Cons.prems(2) obtain s1 where s1: "step e s = Inr s1" "run_events es s1 = Inr s'"
    by (auto split: sum.splits)
  from step_keeps_queue_empty_when_stable [OF Cons.prems(1) s1(1)]
  show ?case using Cons.IH s1(2) by blast
qed

text \<open>
  The channel refines the candidate buffer of the specification: as long as no ICE
  restart is requested, a run of events leaves the signaling state, the candidate
  messages transmitted and the queue that the buffer leaves.
\<close>

lemma step_refines_buffer:
  assumes "e \<noteq> EvIceRestart" "\<not> ice_restart_needed s"
  shows "\<exists>s'. step e s = Inr s' \<and> \<not> ice_restart_needed s' \<and>
           session_id s' = session_id s \<and>
           (signaling_state s', sent_sdp (trace s'), ice_candidates s') =
             spec_buffer_step (session_id s) e
               (signaling_state s, sent_sdp (trace s), ice_candidates s)"
proof (cases e)
  case (EvIceCandidate c)
  then show ?thesis using assms
    by (simp add: OnIceCandidate_def emit_def sent_sdp_append Let_def)
next
  case (EvSignalingChange st)
  show ?thesis
  proof (cases "st = kStable")
    case True
    then show ?thesis using assms EvSignalingChange
      by (simp add: OnSignalingChange_stable_eq sent_sdp_append sent_sdp_map)
  next
    case False
    then show ?thesis using assms EvSignalingChange
      by (simp add: OnSignalingChange_other_eq)
  qed
next
  case EvIceRestart
  then show ?thesis using assms by simp
qed

lemma run_events_refines_buffer:
  assumes "EvIceRestart \<notin> set evs" "\<not> ice_restart_needed s"
  shows "\<exists>s'. run_events evs s = Inr s' \<and>
           (signaling_state s', sent_sdp (trace s'), ice_candidates s') =
             spec_candidate_buffer (session_id s) evs
               (signaling_state s, sent_sdp (trace s), ice_candidates s)"
  using assms
proof (induction evs arbitrary: s)
  case Nil
  then show ?case by simp
next
  case (Cons e es)
  from Cons.prems have ne: "e \<noteq> EvIceRestart" and rest: "EvIceRestart \<notin> set es" by auto
  from step_refines_buffer [OF ne Cons.prems(2)]
  obtain s1 where s1: "step e s = Inr s1" "\<not> ice_restart_needed s1"
      "session_id s1 = session_id s"
      "(signaling_state s1, sent_sdp (trace s1), ice_candidates s1) =
         spec_buffer_step (session_id s) e
           (signaling_state s, sent_sdp (trace s), ice_candidates s)"
    by blast
  from Cons.IH [OF rest s1(2)]
  obtain s' where s': "run_events es s1 = Inr s'"
      "(signaling_state s', sent_sdp (trace s'), ice_candidates s') =
         spec_candidate_buffer (session_id s1) es
           (signaling_state s1, sent_sdp (trace s1), ice_candidates s1)"
    by blast
  show ?case using s1 s' by simp
qed

lemma buffer_final_state:
  "fst (spec_candidate_buffer sid evs (st, sent, queue)) = final_signaling_state st evs"
proof (induction evs arbitrary: st sent queue)
  case Nil
  then show ?case by simp
next
  case (Cons e es)
  then show ?case by (cases e) simp_all
qed

text \<open>
  C3. Take any sequence of locally generated candidates and signaling-state changes,
  without a request for an ICE restart, on a channel with no restart pending whose queue
  is empty if it is stable (as it is after construction). Each candidate is sent at once
  when the channel is stable and appended to the queue otherwise. The run returns, and
  it leaves the signaling state, the transmitted candidate messages and the queue exactly
  as the candidate buffer of the specification does, event by event: a candidate is
  transmitted when generated in the stable state, queued otherwise, and a transition
  into the stable state transmits the queue in order and empties it. The transmitted
  messages followed by the queued ones are the earlier ones followed by the generated
  ones, in generation order; and when the last state change of the sequence is into the
  stable state (or there is none and the channel was stable), the queue is empty and
  every generated candidate has been transmitted, in generation order.
\<close>

theorem candidates_transmitted_in_generation_order:
  assumes "EvIceRestart \<notin> set evs" "\<not> ice_restart_needed s"
    "signaling_state s = kStable \<longrightarrow> ice_candidates s = []"
  shows "OnIceCandidate c s =
           (if signaling_state s = kStable
            then emit (SendSdp (candidate_message (session_id s) c)) s
            else s\<lparr>ice_candidates := ice_candidates s @ [candidate_message (session_id s) c]\<rparr>) \<and>
         (\<exists>s'. run_events evs s = Inr s' \<and>
            (signaling_state s', sent_sdp (trace s'), ice_candidates s') =
              spec_candidate_buffer (session_id s) evs
                (signaling_state s, sent_sdp (trace s), ice_candidates s) \<and>
            signaling_state s' = final_signaling_state (signaling_state s) evs \<and>
            sent_sdp (trace s') @ ice_candidates s' =
              sent_sdp (trace s) @ ice_candidates s @ generated (session_id s) evs \<and>
            (final_signaling_state (signaling_state s) evs = kStable \<longrightarrow>
               ice_candidates s' = [] \<and>
               sent_sdp (trace s') =
                 sent_sdp (trace s) @ ice_candidates s @ generated (session_id s) evs))"
proof -
  from run_events_order [OF assms] obtain s' where
    r: "run_events evs s = Inr s'"
    and inv: "signaling_state s' = kStable \<longrightarrow> ice_candidates s' = []"
    and ord: "sent_sdp (trace s') @ ice_candidates s' =
       sent_sdp (trace s) @ ice_candidates s @ generated (session_id s) evs"
    by blast
  from run_events_refines_buffer [OF assms(1) assms(2)] r
  have ref: "(signaling_state s', sent_sdp (trace s'), ice_candidates s') =
              spec_candidate_buffer (session_id s) evs
                (signaling_state s, sent_sdp (trace s), ice_candidates s)"
    by simp
  have fin: "signaling_state s' = final_signaling_state (signaling_state s) evs"
    using buffer_final_state
      [of "session_id s" evs "signaling_state s" "sent_sdp (trace s)" "ice_candidates s"]
      ref [symmetric]
    by simp
  have all: "ice_candidates s' = [] \<and>
       sent_sdp (trace s') =
         sent_sdp (trace s) @ ice_candidates s @ generated (session_id s) evs"
    if "final_signaling_state (signaling_state s) evs = kStable"
    using that fin inv ord by simp
  have "\<exists>s'. run_events evs s = Inr s' \<and>
            (signaling_state s', sent_sdp (trace s'), ice_candidates s') =
              spec_candidate_buffer (session_id s) evs
                (signaling_state s, sent_sdp (trace s), ice_candidates s) \<and>
            signaling_state s' = final_signaling_state (signaling_state s) evs \<and>
            sent_sdp (trace s') @ ice_candidates s' =
              sent_sdp (trace s) @ ice_candidates s @ generated (session_id s) evs \<and>
            (final_signaling_state (signaling_state s) evs = kStable \<longrightarrow>
               ice_candidates s' = [] \<and>
               sent_sdp (trace s') =
                 sent_sdp (trace s) @ ice_candidates s @ generated (session_id s) evs)"
    using r ref fin ord all by blast
  then show ?thesis by (simp add: OnIceCandidate_def Let_def)
qed

text \<open>
  C2. On a transition into the stable state, with a live peer connection: if an ICE
  restart is needed the flag is cleared, the queue is cleared without any of its
  candidates being sent, and one offer is created; otherwise the queued candidates are
  sent in order and the queue is emptied. In both cases the queue is empty when the
  handler ends. After a restart, whatever candidates and state changes follow, the
  candidates transmitted or queued from then on are the ones generated from then on:
  those queued before the restart never appear.
\<close>

theorem OnSignalingChange_into_stable:
  assumes "peer_connection s"
  shows "OnSignalingChange kStable s =
           Inr (if ice_restart_needed s then
                  s\<lparr>signaling_state := kStable, ice_restart_needed := False,
                    ice_candidates := [], trace := trace s @ [PcCreateOffer]\<rparr>
                else
                  s\<lparr>signaling_state := kStable, ice_candidates := [],
                    trace := trace s @ map SendSdp (ice_candidates s)\<rparr>) \<and>
         ice_candidates (state_of (OnSignalingChange kStable s)) = [] \<and>
         (ice_restart_needed s \<and> EvIceRestart \<notin> set evs \<longrightarrow>
            (\<exists>s'. run_events (EvSignalingChange kStable # evs) s = Inr s' \<and>
               sent_sdp (trace s') @ ice_candidates s' =
                 sent_sdp (trace s) @ generated (session_id s) evs))"
proof -
  have eq: "OnSignalingChange kStable s =
           Inr (if ice_restart_needed s then
                  s\<lparr>signaling_state := kStable, ice_restart_needed := False,
                    ice_candidates := [], trace := trace s @ [PcCreateOffer]\<rparr>
                else
                  s\<lparr>signaling_state := kStable, ice_candidates := [],
                    trace := trace s @ map SendSdp (ice_candidates s)\<rparr>)"
    using assms by (simp add: OnSignalingChange_stable_eq)
  have empty: "ice_candidates (state_of (OnSignalingChange kStable s)) = []"
    by (simp add: eq state_of_def)
  have later: "\<exists>s'. run_events (EvSignalingChange kStable # evs) s = Inr s' \<and>
               sent_sdp (trace s') @ ice_candidates s' =
                 sent_sdp (trace s) @ generated (session_id s) evs"
    if r: "ice_restart_needed s" and n: "EvIceRestart \<notin> set evs"
  proof -
    let ?s1 = "s\<lparr>signaling_state := kStable, ice_restart_needed := False,
                    ice_candidates := [], trace := trace s @ [PcCreateOffer]\<rparr>"
    have "\<not> ice_restart_needed ?s1" "signaling_state ?s1 = kStable \<longrightarrow> ice_candidates ?s1 = []"
      by simp_all
    from run_events_order [OF n this] obtain s' where
      "run_events evs ?s1 = Inr s'"
      "sent_sdp (trace s') @ ice_candidates s' =
         sent_sdp (trace ?s1) @ ice_candidates ?s1 @ generated (session_id ?s1) evs"
      by blast
    then show ?thesis using r eq by (simp add: sent_sdp_append)
  qed
  show ?thesis using eq empty later by blast
qed

theorem candidates_transmitted_in_generation_order_witness:
  "EvIceRestart \<notin> set sample_events \<and> \<not> ice_restart_needed (new_channel kStable) \<and>
   ice_candidates (new_channel kStable) = [] \<and>
   (\<exists>s'. run_events sample_events (new_channel kStable) = Inr s' \<and>
      signaling_state s' = kStable \<and>
      sent_sdp (trace s') =
        [candidate_message '''' cand_A, candidate_message '''' cand_B,
         candidate_message '''' cand_C] \<and>
      ice_candidates s' = []) \<and>
   EvIceRestart \<notin> set late_stable_events \<and>
   \<not> ice_restart_needed (new_channel kHaveLocalOffer) \<and>
   signaling_state (new_channel kHaveLocalOffer) \<noteq> kStable \<and>
   (\<exists>s'. run_events late_stable_events (new_channel kHaveLocalOffer) = Inr s' \<and>
      signaling_state s' = kStable \<and>
      sent_sdp (trace s') = [candidate_message '''' cand_A] \<and>
      ice_candidates s' = [])"
proof -
  have h1: "EvIceRestart \<notin> set sample_events" by (simp add: sample_events_def)
  have h2: "\<not> ice_restart_needed (new_channel kStable)" by (simp add: new_channel_def)
  have q1: "ice_candidates (new_channel kStable) = []" by (simp add: new_channel_def)
  then have h3: "signaling_state (new_channel kStable) = kStable \<longrightarrow>
      ice_candidates (new_channel kStable) = []" by simp
  have f1: "final_signaling_state (signaling_state (new_channel kStable)) sample_events = kStable"
    by (simp add: sample_events_def new_channel_def)
  have g1: "sent_sdp (trace (new_channel kStable)) @ ice_candidates (new_channel kStable) @
             generated (session_id (new_channel kStable)) sample_events =
           [candidate_message '''' cand_A, candidate_message '''' cand_B,
            candidate_message '''' cand_C]"
    by (simp add: sample_events_def new_channel_def)
  from candidates_transmitted_in_generation_order [OF h1 h2 h3, of cand_A]
  obtain s1 where "run_events sample_events (new_channel kStable) = Inr s1"
    "signaling_state s1 = final_signaling_state (signaling_state (new_channel kStable)) sample_events"
    "final_signaling_state (signaling_state (new_channel kStable)) sample_events = kStable \<longrightarrow>
       ice_candidates s1 = [] \<and>
       sent_sdp (trace s1) =
         sent_sdp (trace (new_channel kStable)) @ ice_candidates (new_channel kStable) @
         generated (session_id (new_channel kStable)) sample_events"
    by blast
  then have c1: "\<exists>s'. run_events sample_events (new_channel kStable) = Inr s' \<and>
      signaling_state s' = kStable \<and>
      sent_sdp (trace s') =
        [candidate_message '''' cand_A, candidate_message '''' cand_B,
         candidate_message '''' cand_C] \<and>
      ice_candidates s' = []"
    using f1 g1 by simp
  have k1: "EvIceRestart \<notin> set late_stable_events" by (simp add: late_stable_events_def)
  have k2: "\<not> ice_restart_needed (new_channel kHaveLocalOffer)" by (simp add: new_channel_def)
  have k4: "signaling_state (new_channel kHaveLocalOffer) \<noteq> kStable"
    by (simp add: new_channel_def)
  then have k3: "signaling_state (new_channel kHaveLocalOffer) = kStable \<longrightarrow>
      ice_candidates (new_channel kHaveLocalOffer) = []" by simp
  have f2: "final_signaling_state (signaling_state (new_channel kHaveLocalOffer))
              late_stable_events = kStable"
    by (simp add: late_stable_events_def)
  have g2: "sent_sdp (trace (new_channel kHaveLocalOffer)) @
              ice_candidates (new_channel kHaveLocalOffer) @
              generated (session_id (new_channel kHaveLocalOffer)) late_stable_events =
            [candidate_message '''' cand_A]"
    by (simp add: late_stable_events_def new_channel_def)
  from candidates_transmitted_in_generation_order [OF k1 k2 k3, of cand_A]
  obtain s2 where "run_events late_stable_events (new_channel kHaveLocalOffer) = Inr s2"
    "signaling_state s2 =
       final_signaling_state (signaling_state (new_channel kHaveLocalOffer)) late_stable_events"
    "final_signaling_state (signaling_state (new_channel kHaveLocalOffer)) late_stable_events =
       kStable \<longrightarrow>
       ice_candidates s2 = [] \<and>
       sent_sdp (trace s2) =
         sent_sdp (trace (new_channel kHaveLocalOffer)) @
         ice_candidates (new_channel kHaveLocalOffer) @
         generated (session_id (new_channel kHaveLocalOffer)) late_stable_events"
    by blast
  then have c2: "\<exists>s'. run_events late_stable_events (new_channel kHaveLocalOffer) = Inr s' \<and>
      signaling_state s' = kStable \<and>
      sent_sdp (trace s') = [candidate_message '''' cand_A] \<and>
      ice_candidates s' = []"
    using f2 g2 by simp
  show ?thesis using h1 h2 q1 c1 k1 k2 k4 c2 by blast
qed

theorem OnSignalingChange_into_stable_witness:
  "peer_connection restart_pending_channel \<and> ice_restart_needed restart_pending_channel \<and>
   EvIceRestart \<notin> set [EvIceCandidate cand_C] \<and>
   trace (state_of (OnSignalingChange kStable restart_pending_channel)) = [PcCreateOffer] \<and>
   (\<exists>s'. run_events [EvSignalingChange kStable, EvIceCandidate cand_C]
            restart_pending_channel = Inr s' \<and>
      sent_sdp (trace s') @ ice_candidates s' = [candidate_message '''' cand_C]) \<and>
   peer_connection queued_channel \<and> \<not> ice_restart_needed queued_channel \<and>
   trace (state_of (OnSignalingChange kStable queued_channel)) =
     [SendSdp (candidate_message '''' cand_A), SendSdp (candidate_message '''' cand_B)]"
proof -
  have h1: "peer_connection restart_pending_channel"
    and h2: "ice_restart_needed restart_pending_channel"
    and t1: "trace restart_pending_channel = []"
    and i1: "session_id restart_pending_channel = ''''"
    by (simp_all add: restart_pending_channel_def queued_channel_def new_channel_def)
  have h3: "peer_connection queued_channel" and h4: "\<not> ice_restart_needed queued_channel"
    and t2: "trace queued_channel = []"
    and q2: "ice_candidates queued_channel =
               [candidate_message '''' cand_A, candidate_message '''' cand_B]"
    by (simp_all add: queued_channel_def new_channel_def)
  have h5: "EvIceRestart \<notin> set [EvIceCandidate cand_C]" by simp
  note a = OnSignalingChange_into_stable [OF h1, of "[EvIceCandidate cand_C]"]
  note b = OnSignalingChange_into_stable [OF h3, of "[]"]
  have c1: "trace (state_of (OnSignalingChange kStable restart_pending_channel)) = [PcCreateOffer]"
    using a h2 t1 by (simp add: state_of_def)
  have c2: "\<exists>s'. run_events [EvSignalingChange kStable, EvIceCandidate cand_C]
            restart_pending_channel = Inr s' \<and>
      sent_sdp (trace s') @ ice_candidates s' = [candidate_message '''' cand_C]"
  proof -
    have g: "sent_sdp (trace restart_pending_channel) @
               generated (session_id restart_pending_channel) [EvIceCandidate cand_C] =
             [candidate_message [] cand_C]"
      by (simp add: t1 i1)
    have "\<exists>s'. run_events (EvSignalingChange kStable # [EvIceCandidate cand_C])
                 restart_pending_channel = Inr s' \<and>
             sent_sdp (trace s') @ ice_candidates s' =
               sent_sdp (trace restart_pending_channel) @
               generated (session_id restart_pending_channel) [EvIceCandidate cand_C]"
      using a h2 h5 by blast
    then show ?thesis unfolding g .
  qed
  have c3: "trace (state_of (OnSignalingChange kStable queued_channel)) =
     [SendSdp (candidate_message '''' cand_A), SendSdp (candidate_message '''' cand_B)]"
    using b h4 t2 q2 by (simp add: state_of_def)
  show ?thesis using h1 h2 h3 h4 h5 c1 c2 c3 by blast
qed

subsection \<open>The subscribe readiness gate\<close>

text \<open>
  C1. Take a channel with a subscribe pending: its success callback \<open>cb\<close> is registered,
  no publish callback is, and both readiness flags are down. The first of the two
  events, the stream attached (\<open>OnAddStream\<close>) or the server's \<open>success\<close> message, posts
  nothing. The second one posts the success task, once, and lowers both flags; the
  channel is the same whichever event came first. The task, run on the live channel,
  calls \<open>cb\<close> with the session id and clears the callbacks; run again it calls nothing,
  and after it neither event posts anything.
\<close>

theorem subscribe_success_fires_once_in_either_order:
  assumes cb: "subscribe_success_callback s = Some cb"
    and pub: "publish_success_callback s = None"
    and f1: "\<not> sub_stream_added s" and f2: "\<not> sub_server_ready s"
  shows "\<exists>s1 s2.
      event_queue (OnAddStream stream s) = event_queue s \<and>
      OnSignalingMessage pf (Some (string_message ''success'')) s = Inr s1 \<and>
      event_queue s1 = event_queue s \<and>
      OnSignalingMessage pf (Some (string_message ''success'')) (OnAddStream stream s) = Inr s2 \<and>
      OnAddStream stream s1 = s2 \<and>
      event_queue s2 = event_queue s @ [SubscribeSuccessTask] \<and>
      \<not> sub_stream_added s2 \<and> \<not> sub_server_ready s2 \<and>
      run_task SubscribeSuccessTask (Some s2) =
        Inr ([Invoke cb (SessionIdArg (session_id s))], Some (ResetCallbacks s2)) \<and>
      run_task SubscribeSuccessTask (Some (ResetCallbacks s2)) =
        Inr ([], Some (ResetCallbacks s2)) \<and>
      OnAddStream stream' (ResetCallbacks s2) =
        (ResetCallbacks s2)\<lparr>subscribed_stream :=
           map_option (\<lambda>rs. rs\<lparr>rs_media_stream := stream'\<rparr>) (subscribed_stream s2)\<rparr> \<and>
      OnSignalingMessage pf (Some (string_message ''success'')) (ResetCallbacks s2) =
        Inr (ResetCallbacks s2)"
  using assms
  by (cases "subscribed_stream s")
    (simp_all add: OnAddStream_def OnSignalingMessage_def Let_def PostTask_def
      ResetCallbacks_def GetSessionId_def)

theorem subscribe_success_fires_once_in_either_order_witness:
  "subscribe_success_callback subscribing_channel = Some 1 \<and>
   publish_success_callback subscribing_channel = None \<and>
   \<not> sub_stream_added subscribing_channel \<and> \<not> sub_server_ready subscribing_channel \<and>
   (\<exists>s2. OnSignalingMessage sample_platform (Some (string_message ''success''))
            (OnAddStream (Some live_media_stream) subscribing_channel) = Inr s2 \<and>
      event_queue s2 = [SubscribeSuccessTask] \<and>
      run_task SubscribeSuccessTask (Some s2) =
        Inr ([Invoke 1 (SessionIdArg ''s-1'')], Some (ResetCallbacks s2)))"
proof -
  have h1: "subscribe_success_callback subscribing_channel = Some 1"
    and h2: "publish_success_callback subscribing_channel = None"
    and h3: "\<not> sub_stream_added subscribing_channel"
    and h4: "\<not> sub_server_ready subscribing_channel"
    and q: "event_queue subscribing_channel = []"
    and i: "session_id subscribing_channel = ''s-1''"
    by (simp_all add: subscribing_channel_def SetSessionId_def new_channel_def)
  from subscribe_success_fires_once_in_either_order
    [OF h1 h2 h3 h4, of "Some live_media_stream" sample_platform None]
  obtain s2 where
    "OnSignalingMessage sample_platform (Some (string_message ''success''))
       (OnAddStream (Some live_media_stream) subscribing_channel) = Inr s2"
    "event_queue s2 = event_queue subscribing_channel @ [SubscribeSuccessTask]"
    "run_task SubscribeSuccessTask (Some s2) =
        Inr ([Invoke 1 (SessionIdArg (session_id subscribing_channel))],
             Some (ResetCallbacks s2))"
    by blast
  then have "\<exists>s2. OnSignalingMessage sample_platform (Some (string_message ''success''))
            (OnAddStream (Some live_media_stream) subscribing_channel) = Inr s2 \<and>
      event_queue s2 = [SubscribeSuccessTask] \<and>
      run_task SubscribeSuccessTask (Some s2) =
        Inr ([Invoke 1 (SessionIdArg ''s-1'')], Some (ResetCallbacks s2))"
    using q i by simp
  with h1 h2 h3 h4 show ?thesis by blast
qed

text \<open>
  C9, evaluated on the code. The three tasks that work on the channel lock
  \<^verbatim>\<open>that->callback_mutex_\<close> before they test \<^verbatim>\<open>!that\<close>: run after the channel is
  destroyed, each dereferences the null pointer instead of returning silently. The wrapper
  of \<^verbatim>\<open>RunInEventQueue\<close> tests first and does nothing then.
\<close>

theorem posted_task_dereferences_destroyed_channel:
  "run_task SubscribeSuccessTask None = Inl NullDeref \<and>
   run_task PublishSuccessTask None = Inl NullDeref \<and>
   run_task ServerFailureTask None = Inl NullDeref \<and>
   run_deferred (InEventQueue f) None = None"
  by (simp add: run_deferred_def)

subsection \<open>Subscribe, publish and stream errors\<close>

lemma default_options_allowed: "SubOptionAllowed default_options settings caps"
  by (simp add: SubOptionAllowed_def Let_def settings_loop_eq default_options_def
      double_zero_def)

text \<open>
  C4, evaluated on the code. On a channel whose subscribe is in flight (success callback
  1, failure callback 2), a second \<open>Subscribe\<close> with callbacks 3 and 4 posts the failure
  for callback 4 and goes on: both callback slots are overwritten, two transceivers are
  added and the initialization message is sent.
\<close>

theorem Subscribe_in_flight_goes_on:
  "subscribe_success_callback subscribing_channel = Some 1 \<and>
   (\<exists>s'. Subscribe sample_platform (Some sample_remote_stream) default_options (Some 3) (Some 4)
            subscribing_channel = Inr s' \<and>
      event_queue s' = [FailureTask 4 ''Subscribing this stream.''] \<and>
      subscribe_success_callback s' = Some 3 \<and> failure_callback s' = Some 4 \<and>
      trace s' =
        [PcAddTransceiver MEDIA_TYPE_AUDIO kRecvOnly, PcAddTransceiver MEDIA_TYPE_VIDEO kRecvOnly,
         SendInitializationMessage
           (subscribe_options_message sample_platform sample_remote_stream default_options 1 1)
           '''' ''remote-1'' SubscribeAck (Some 4)])"
proof -
  have allowed: "SubOptionAllowed default_options (rs_settings sample_remote_stream)
                   (rs_capabilities sample_remote_stream)"
    by (simp add: default_options_allowed)
  have d: "\<not> asc_disabled (so_audio default_options)"
    "\<not> vsc_disabled (so_video default_options)"
    by (simp_all add: default_options_def)
  have r: "rs_has_audio sample_remote_stream" "rs_has_video sample_remote_stream"
    "rs_id sample_remote_stream = ''remote-1''"
    by (simp_all add: sample_remote_stream_def)
  show ?thesis
    by (simp add: Subscribe_def Let_def allowed d r subscribing_channel_def SetSessionId_def
        new_channel_def CheckNullPointer_def PostFailure_def PostTask_def AddTransceiver_def
        emit_def)
qed

lemma notify_loop_eq:
  "notify_loop obs es msg s = s\<lparr>trace := trace s @ map (\<lambda>ob. ObserverOnStreamError ob es msg) obs\<rparr>"
  by (induction obs arbitrary: s) (simp_all add: emit_def)

text \<open>
  C6, evaluated on the code. On a channel that publishes a stream and has the observers
  7 and 8, \<open>OnStreamError\<close> notifies both with a null stream: the local variable
  \<^verbatim>\<open>error_stream\<close> is assigned after the loop. The unpublish follows.
\<close>

theorem OnStreamError_notifies_null_stream:
  "OnStreamError ''Stream ICE connection failed.'' publishing_channel =
     Inr (publishing_channel
            \<lparr>peer_connection := False,
             trace :=
               [ObserverOnStreamError 7 None ''Stream ICE connection failed.'',
                ObserverOnStreamError 8 None ''Stream ICE connection failed.'',
                SendStreamEvent ''unpublish'' ''p-1'' None None, PcClose]\<rparr>)"
  by (simp add: OnStreamError_def Let_def notify_loop_eq publishing_channel_def AddObserver_def
      SetSessionId_def new_channel_def Unpublish_def GetSessionId_def ClosePeerConnection_def
      emit_def RunInEventQueue_def)

text \<open>
  C5, evaluated on the code. After the null checks \<open>Publish\<close> does not return: the branch
  they guard only logs. With a null stream the first check posts its fault, the second
  is skipped by \<^verbatim>\<open>||\<close>, and the next statement dereferences the null stream. With a
  stream whose media handle is null the second check posts its fault, and the next
  statement hands the null handle to \<open>IsMediaStreamEnded\<close>, whose \<^verbatim>\<open>RTC_CHECK\<close> fails.
  In both cases the call stops there instead of ending as a rejected call, with the
  stream already recorded as the published stream.
\<close>

theorem Publish_null_checks_do_not_abort:
  "Publish None (Some 1) (Some 2) (new_channel kStable) =
     Inl (NullDeref,
          (new_channel kStable)\<lparr>event_queue := [FailureTask 2 ''Nullptr is not allowed.'']\<rparr>) \<and>
   Publish (Some handleless_local_stream) (Some 1) (Some 2) (new_channel kStable) =
     Inl (RtcCheck,
          (new_channel kStable)
            \<lparr>published_stream := Some handleless_local_stream,
             event_queue := [FailureTask 2 ''Nullptr is not allowed.'']\<rparr>)"
  by (simp add: Publish_def Let_def CheckNullPointer_def PostFailure_def PostTask_def
      IsMediaStreamEnded_def new_channel_def handleless_local_stream_def)

text \<open>
  C10, evaluated on the code. A \<open>Publish\<close> with a stream whose media handle is null, on a
  channel that publishes nothing yet, records the stream and posts the fault for
  callback 4, and then stops at the \<^verbatim>\<open>RTC_CHECK\<close> of \<open>IsMediaStreamEnded\<close>: the call is
  not a rejected call that returns, and no operation runs on the channel after it.
\<close>

theorem Publish_null_handle_does_not_return:
  "published_stream (new_channel kHaveLocalOffer) = None \<and>
   Publish (Some handleless_local_stream) (Some 3) (Some 4) (new_channel kHaveLocalOffer) =
     Inl (RtcCheck,
          (new_channel kHaveLocalOffer)
            \<lparr>published_stream := Some handleless_local_stream,
             event_queue := [FailureTask 4 ''Nullptr is not allowed.'']\<rparr>)"
  by (simp add: Publish_def Let_def CheckNullPointer_def PostFailure_def PostTask_def
      IsMediaStreamEnded_def new_channel_def handleless_local_stream_def)

text \<open>
  The calls of \<open>Publish\<close> that return: every call with a stream and a media handle
  returns, and after a call that returns the channel holds the stream as its published
  stream, \<open>SendStreamControlMessage\<close> sends the stream control message with the outgoing
  action, \<open>GetConnectionStats\<close> on a live peer connection asks for statistics, and
  \<open>OnStreamError\<close> unpublishes.
\<close>

lemma Publish_returns:
  assumes "ls_media_stream st = Some ms"
  shows "\<exists>s'. Publish (Some st) on_success on_failure s = Inr s' \<and>
           published_stream s' = Some st \<and> session_id s' = session_id s \<and>
           peer_connection s' = peer_connection s \<and> subscribed_stream s' = subscribed_stream s"
  using assms
  by (simp add: Publish_def Let_def CheckNullPointer_def IsMediaStreamEnded_def
      PostFailure_def PostTask_def SendPublishMessage_def emit_def split: option.splits)

lemma Publish_Inr_published:
  assumes "Publish stream on_success on_failure s = Inr s'"
  shows "published_stream s' = stream \<and> stream \<noteq> None"
  using assms
  by (auto simp add: Publish_def Let_def CheckNullPointer_def IsMediaStreamEnded_def
      PostFailure_def PostTask_def SendPublishMessage_def emit_def
      split: option.splits if_splits)

lemma OnStreamError_published:
  assumes "published_stream s = Some st"
  shows "\<exists>s''. OnStreamError msg s = Inr s'' \<and>
           SendStreamEvent ''unpublish'' (session_id s) None None \<in> set (trace s'')"
  using assms
  by (cases "subscribed_stream s")
    (simp_all add: OnStreamError_def Let_def notify_loop_eq Unpublish_def Unsubscribe_def
      GetSessionId_def ClosePeerConnection_def emit_def RunInEventQueue_def PostFailure_def)

lemma Publish_returning_call_records_stream:
  "(\<forall>s'. Publish stream on_success on_failure s = Inr s' \<longrightarrow>
      published_stream s' = stream \<and> stream \<noteq> None \<and>
      SendStreamControlMessage in_action out_action operation cs cf s' =
        Inr (emit (SigSendStreamControlMessage (session_id s') out_action operation cs cf) s') \<and>
      (peer_connection s' \<longrightarrow>
         GetConnectionStats cs cf s' = Inr (emit (PcGetStats cs) s')) \<and>
      (\<exists>s''. OnStreamError msg s' = Inr s'' \<and>
         SendStreamEvent ''unpublish'' (session_id s') None None \<in> set (trace s''))) \<and>
   (\<forall>st ms. stream = Some st \<and> ls_media_stream st = Some ms \<longrightarrow>
      (\<exists>s'. Publish stream on_success on_failure s = Inr s'))"
proof (intro conjI allI impI)
  fix s' assume r: "Publish stream on_success on_failure s = Inr s'"
  from Publish_Inr_published [OF r] obtain st where
    p: "published_stream s' = stream" and st: "stream = Some st"
    by auto
  from p st have ps: "published_stream s' = Some st" by simp
  show "published_stream s' = stream" by (rule p)
  show "stream \<noteq> None" using st by simp
  show "SendStreamControlMessage in_action out_action operation cs cf s' =
        Inr (emit (SigSendStreamControlMessage (session_id s') out_action operation cs cf) s')"
    using ps by (simp add: SendStreamControlMessage_def)
  show "GetConnectionStats cs cf s' = Inr (emit (PcGetStats cs) s')" if "peer_connection s'"
    using ps that by (simp add: GetConnectionStats_def)
  show "\<exists>s''. OnStreamError msg s' = Inr s'' \<and>
         SendStreamEvent ''unpublish'' (session_id s') None None \<in> set (trace s'')"
    using OnStreamError_published [OF ps, of msg] .
next
  fix st ms assume "stream = Some st \<and> ls_media_stream st = Some ms"
  then show "\<exists>s'. Publish stream on_success on_failure s = Inr s'"
    using Publish_returns [of st ms on_success on_failure s] by blast
qed

end
